theory Spec2Isabelle
  imports Main
begin

section \<open>The embedding mapper of map-gpt-embeddings\<close>

text \<open>
  A shallow embedding of \<^verbatim>\<open>src/map_gpt_embeddings/mappers.py\<close>, the class
  \<^verbatim>\<open>GPTEmbeddingMapper\<close>. Python dictionaries are maps, exceptions are values of
  the type \<open>error\<close>, a generator is the list of what it yields together with the way it
  ends, and the two things the class mutates or talks to (the nested
  \<^verbatim>\<open>splitter_config\<close> dictionary of the configuration, the remote embedding service) are
  passed as explicit state.
\<close>

subsection \<open>Values, dictionaries and exceptions\<close>

text \<open>
  A JSON value as Python holds it. A float is kept as mantissa and binary exponent; the
  mapper never computes with one. The bindings of a nested object are an association list
  whose first binding of a key is the live one.
\<close>

datatype json =
    JNull
  | JBool bool
  | JInt int
  | JFloat int int
  | JStr string
  | JArr "json list"
  | JObj "(string \<times> json) list"

type_synonym dict = "string \<rightharpoonup> json"

text \<open>
  The exceptions that can leave the mapper. \<open>RateLimitError\<close> is
  \<^verbatim>\<open>openai.error.RateLimitError\<close>, \<open>ConfigValidationError\<close> and
  \<open>AbortedSyncFailedException\<close> are the two classes of \<^verbatim>\<open>singer_sdk.exceptions\<close> the
  mapper raises, \<open>ExternalError\<close> is any other exception of a library the mapper calls.
  Each carries its message (for \<open>KeyError\<close>, the key).
\<close>

datatype error =
    KeyError string
  | IndexError
  | TypeError
  | AttributeError
  | ConfigValidationError string
  | AbortedSyncFailedException string
  | RateLimitError string
  | ExternalError string

text \<open>
  A generator that has been run to its end: the values it yielded, in order, and how it
  ended, by an exception (\<open>Inl\<close>) or by returning (\<open>Inr\<close>, with the value of its
  \<^verbatim>\<open>return\<close>, which a \<^verbatim>\<open>for\<close> loop discards).
\<close>

type_synonym ('a, 'r) generator = "'a list \<times> (error + 'r)"

subsection \<open>Configuration and messages\<close>

text \<open>
  \<^verbatim>\<open>self.config\<close>, with the types of \<^verbatim>\<open>config_jsonschema\<close> and of the two
  further settings \<^verbatim>\<open>split_record\<close> reads. \<open>None\<close> is a key that is not set
  (for \<open>openai_api_key\<close> also one set to \<^verbatim>\<open>None\<close>).
\<close>

record config =
  document_text_property :: "string option"
  document_metadata_property :: "string option"
  openai_api_key :: "string option"
  split_documents :: "bool option"
  splitter_config :: "dict option"

text \<open>
  The type descriptors of \<^verbatim>\<open>singer_sdk.typing\<close>; \<^verbatim>\<open>to_dict()\<close> is the identity on
  this representation. \<open>Declared\<close> is a descriptor of the incoming schema.
\<close>

datatype th_type =
    NumberType
  | IntegerType
  | ObjectType
  | ArrayType th_type
  | Declared json

record schema_message =
  schema_stream :: string
  schema_properties :: "string \<rightharpoonup> th_type"
  key_properties :: "string list"

record record_message =
  message_stream :: string
  message_record :: dict
  message_version :: "int option"
  message_time_extracted :: "string option"

text \<open>
  Modelled from the spec: \<^verbatim>\<open>BasicPassthroughMapper.map_schema_message\<close> of
  \<^verbatim>\<open>map_gpt_embeddings/sdk_fixes/mapper_base.py\<close>, which the mapper calls through
  \<^verbatim>\<open>super()\<close>. The schema message goes through as it is, once per incoming message.
\<close>

definition base_map_schema_message :: "schema_message \<Rightarrow> schema_message list" where
  "base_map_schema_message message_dict = [message_dict]"

text \<open>
  Modelled from the spec: \<^verbatim>\<open>RecordMessage.from_dict\<close> of
  \<^verbatim>\<open>map_gpt_embeddings/sdk_fixes/messages.py\<close>. The outgoing record message has the
  shape of the incoming one, so on typed messages the conversion is the identity.
\<close>

definition from_dict :: "record_message \<Rightarrow> record_message" where
  "from_dict new_message = new_message"

subsection \<open>Strings\<close>

text \<open>
  \<^verbatim>\<open>str.replace(old, new)\<close>: every non-overlapping occurrence of \<open>old\<close>, from the
  left, becomes \<open>new\<close>; an empty \<open>old\<close> matches before every character and at the end.
\<close>

function str_replace :: "string \<Rightarrow> string \<Rightarrow> string \<Rightarrow> string" where
  "str_replace old new s =
     (if old = [] then new @ concat (map (\<lambda>c. c # new) s)
      else if s = [] then []
      else if take (length old) s = old
        then new @ str_replace old new (drop (length old) s)
      else hd s # str_replace old new (tl s))"
  by pat_completeness auto
termination
  by (relation "measure (\<lambda>(old, new, s). length s)") (auto simp: neq_Nil_conv)

text \<open>\<^verbatim>\<open>str.upper()\<close> on ASCII text.\<close>

definition upper_char :: "char \<Rightarrow> char" where
  "upper_char c =
     (if 97 \<le> (of_char c :: nat) \<and> (of_char c :: nat) \<le> 122
      then char_of ((of_char c :: nat) - 32) else c)"

definition upper :: "string \<Rightarrow> string" where
  "upper s = map upper_char s"

subsection \<open>Schema messages\<close>

text \<open>The body of the loop of \<^verbatim>\<open>map_schema_message\<close>, for one message of the base class.\<close>

definition map_schema_result :: "config \<Rightarrow> schema_message \<Rightarrow> error + schema_message" where
  "map_schema_result cfg result =
     (let properties = schema_properties result;
          properties = properties(''embeddings'' \<mapsto> ArrayType NumberType)
      in case document_metadata_property cfg of
           None \<Rightarrow> Inl (KeyError ''document_metadata_property'')
         | Some metadata_property \<Rightarrow>
             (let properties =
                    (if metadata_property \<notin> dom properties
                     then properties(metadata_property \<mapsto> ObjectType) else properties);
                  properties = properties(''segment_number'' \<mapsto> IntegerType)
              in Inr (result\<lparr>schema_properties := properties,
                          key_properties := key_properties result @ [''segment_number'']\<rparr>)))"

text \<open>A \<^verbatim>\<open>for\<close> loop that yields one value for each element, until the body raises.\<close>

fun yield_each :: "('a \<Rightarrow> error + 'b) \<Rightarrow> 'a list \<Rightarrow> ('b, unit) generator" where
  "yield_each body [] = ([], Inr ())"
| "yield_each body (x # xs) =
     (case body x of
        Inl e \<Rightarrow> ([], Inl e)
      | Inr y \<Rightarrow> (case yield_each body xs of (ys, r) \<Rightarrow> (y # ys, r)))"

definition map_schema_message :: "config \<Rightarrow> schema_message \<Rightarrow> (schema_message, unit) generator" where
  "map_schema_message cfg message_dict =
     yield_each (map_schema_result cfg) (base_map_schema_message message_dict)"

subsection \<open>Configuration validation\<close>

text \<open>\<^verbatim>\<open>name\<close>, the class attribute.\<close>

definition name :: string where
  "name = ''map-openai-embeddings''"

definition missing_key_message :: string where
  "missing_key_message =
     ''Must set at least one of the following: `openai_api_key` setting, '' @
     ''`'' @ str_replace ''-'' ''_'' (upper name) @ ''_OPEN_API_KEY` env var, or '' @
     '' `OPENAI_API_KEY` env var.''"

text \<open>
  \<^verbatim>\<open>_validate_config\<close>. The inherited method of the SDK is the parameter
  \<open>super_validate_config\<close>; its result is dropped, and the method ends without a
  \<^verbatim>\<open>return\<close>, so what it returns is Python's \<^verbatim>\<open>None\<close> (here \<open>Inr None\<close>).
  \<open>environ\<close> is \<^verbatim>\<open>os.environ\<close>.
\<close>

definition validate_config ::
  "(config \<Rightarrow> bool \<Rightarrow> bool \<Rightarrow> error + string list \<times> string list) \<Rightarrow> config \<Rightarrow>
   (string \<rightharpoonup> string) \<Rightarrow> bool \<Rightarrow> bool \<Rightarrow> error + (string list \<times> string list) option" where
  "validate_config super_validate_config cfg environ raise_errors warnings_as_errors =
     (case super_validate_config cfg raise_errors warnings_as_errors of
        Inl e \<Rightarrow> Inl e
      | Inr _ \<Rightarrow>
          if raise_errors \<and> openai_api_key cfg = None \<and> ''OPENAI_API_KEY'' \<notin> dom environ
          then Inl (ConfigValidationError missing_key_message)
          else Inr None)"

subsection \<open>Splitting a record\<close>

text \<open>
  A \<^verbatim>\<open>langchain\<close> \<^verbatim>\<open>Document\<close>, and the text splitter as the mapper uses it:
  \<open>split_documents_of splitter_config raw_document_text metadata_dict\<close> stands for
  \<^verbatim>\<open>RecursiveCharacterTextSplitter(**splitter_config).split_documents([Document(page_content=raw_document_text, metadata=metadata_dict)])\<close>,
  a parameter of the model, which may raise.
\<close>

record document =
  page_content :: string
  metadata :: json

type_synonym splitter = "dict \<Rightarrow> json \<Rightarrow> json \<Rightarrow> error + document list"

text \<open>The two defaults \<^verbatim>\<open>split_record\<close> writes into the splitter configuration.\<close>

definition with_chunk_defaults :: "dict \<Rightarrow> dict" where
  "with_chunk_defaults splitter_cfg =
     (let splitter_cfg =
            (if ''chunk_size'' \<notin> dom splitter_cfg
             then splitter_cfg(''chunk_size'' \<mapsto> JInt 1000) else splitter_cfg);
          splitter_cfg =
            (if ''chunk_overlap'' \<notin> dom splitter_cfg
             then splitter_cfg(''chunk_overlap'' \<mapsto> JInt 200) else splitter_cfg)
      in splitter_cfg)"

text \<open>The final loop of \<^verbatim>\<open>split_record\<close>, from index \<open>i\<close> on.\<close>

fun segment_records :: "string \<Rightarrow> string \<Rightarrow> dict \<Rightarrow> nat \<Rightarrow> document list \<Rightarrow> dict list" where
  "segment_records text_property metadata_property rec i [] = []"
| "segment_records text_property metadata_property rec i (doc_segment # document_segments) =
     (let new_record = rec;
          new_record = new_record(text_property \<mapsto> JStr (page_content doc_segment));
          new_record = new_record(metadata_property \<mapsto> metadata doc_segment);
          new_record = new_record(''segment_number'' \<mapsto> JInt (int i))
      in new_record #
         segment_records text_property metadata_property rec (Suc i) document_segments)"

text \<open>
  \<^verbatim>\<open>split_record\<close>, run to its end, with the configuration it leaves behind.
  \<^verbatim>\<open>self.config.get("splitter_config", {})\<close> is the dictionary stored in the
  configuration when there is one, so the two defaults are written into the configuration
  itself; when there is none they go into a fresh dictionary. The function is a generator
  (its last loop yields), so \<^verbatim>\<open>return record\<close> ends it with no value yielded.
\<close>

definition split_record ::
  "splitter \<Rightarrow> config \<Rightarrow> dict \<Rightarrow> (dict, dict option) generator \<times> config" where
  "split_record split_documents_of cfg rec =
     (case document_text_property cfg of
        None \<Rightarrow> (([], Inl (KeyError ''document_text_property'')), cfg)
      | Some text_property \<Rightarrow>
     (case rec text_property of
        None \<Rightarrow> (([], Inl (KeyError text_property)), cfg)
      | Some raw_document_text \<Rightarrow>
     (case document_metadata_property cfg of
        None \<Rightarrow> (([], Inl (KeyError ''document_metadata_property'')), cfg)
      | Some metadata_property \<Rightarrow>
     (let metadata_dict = (case rec metadata_property of None \<Rightarrow> JObj [] | Some m \<Rightarrow> m)
      in if \<not> (case split_documents cfg of None \<Rightarrow> True | Some b \<Rightarrow> b)
         then (([], Inr (Some rec)), cfg)
         else
           (let (splitter_cfg, cfg) =
                  (case splitter_config cfg of
                     None \<Rightarrow> (with_chunk_defaults Map.empty, cfg)
                   | Some d \<Rightarrow>
                       (with_chunk_defaults d,
                        cfg\<lparr>splitter_config := Some (with_chunk_defaults d)\<rparr>))
            in case split_documents_of splitter_cfg raw_document_text metadata_dict of
                 Inl e \<Rightarrow> (([], Inl e), cfg)
               | Inr document_segments \<Rightarrow>
                   ((segment_records text_property metadata_property rec 0 document_segments,
                     Inr None), cfg))))))"

subsection \<open>The embedding call\<close>

text \<open>
  The embedding service: \<^verbatim>\<open>openai.Embedding.create(input=..., model=..., api_key=...)\<close>
  as a function of the request and of the state \<open>'s\<close> of the remote side, which answers
  with a response or raises.
\<close>

record embedding_request =
  request_input :: "string list"
  request_model :: string
  request_api_key :: "string option"

type_synonym 's embedding_service = "embedding_request \<Rightarrow> 's \<Rightarrow> (error + json) \<times> 's"

text \<open>\<^verbatim>\<open>d[key]\<close> and \<^verbatim>\<open>xs[0]\<close> on a JSON value.\<close>

fun getitem :: "json \<Rightarrow> string \<Rightarrow> error + json" where
  "getitem (JObj kvs) k = (case map_of kvs k of None \<Rightarrow> Inl (KeyError k) | Some v \<Rightarrow> Inr v)"
| "getitem _ k = Inl TypeError"

fun getitem0 :: "json \<Rightarrow> error + json" where
  "getitem0 (JArr []) = Inl IndexError"
| "getitem0 (JArr (x # xs)) = Inr x"
| "getitem0 (JObj kvs) = Inl (KeyError ''0'')"
| "getitem0 _ = Inl TypeError"

definition embedding_of_response :: "json \<Rightarrow> error + json" where
  "embedding_of_response response_dict =
     (case getitem response_dict ''data'' of
        Inl e \<Rightarrow> Inl e
      | Inr data \<Rightarrow>
          (case getitem0 data of
             Inl e \<Rightarrow> Inl e
           | Inr first \<Rightarrow> getitem first ''embedding''))"

text \<open>
  \<^verbatim>\<open>get_embeddings\<close>. The text is whatever the record holds in its text field;
  \<^verbatim>\<open>text.replace\<close> raises \<^verbatim>\<open>AttributeError\<close> on a value that is not a string.
\<close>

definition get_embeddings ::
  "'s embedding_service \<Rightarrow> json \<Rightarrow> string option \<Rightarrow> string \<Rightarrow> 's \<Rightarrow> (error + json) \<times> 's" where
  "get_embeddings create text api_key model s =
     (case text of
        JStr t \<Rightarrow>
          (let t = str_replace [CHR 0x0A] '' '' t
           in case create \<lparr>request_input = [t], request_model = model,
                            request_api_key = api_key\<rparr> s of
                (Inl e, s') \<Rightarrow> (Inl e, s')
              | (Inr response_dict, s') \<Rightarrow> (embedding_of_response response_dict, s'))
      | _ \<Rightarrow> (Inl AttributeError, s))"

subsection \<open>Record messages\<close>

definition abort_message :: "string \<Rightarrow> string" where
  "abort_message ex =
     ''Sync aborted due to OpenAI rate limit reached. Error message:'' @ [CHR 0x0A] @ ex"

text \<open>The body of the loop of \<^verbatim>\<open>map_record_message\<close>, for one record of the split.\<close>

definition embed_record ::
  "'s embedding_service \<Rightarrow> config \<Rightarrow> record_message \<Rightarrow> dict \<Rightarrow> 's \<Rightarrow>
   (error + record_message) \<times> 's" where
  "embed_record create cfg message_dict split_rec s =
     (case document_text_property cfg of
        None \<Rightarrow> (Inl (KeyError ''document_text_property''), s)
      | Some text_property \<Rightarrow>
     (case split_rec text_property of
        None \<Rightarrow> (Inl (KeyError text_property), s)
      | Some text \<Rightarrow>
     (case get_embeddings create text (openai_api_key cfg) ''text-embedding-ada-002'' s of
        (Inl (RateLimitError ex), s') \<Rightarrow>
          (Inl (AbortedSyncFailedException (abort_message ex)), s')
      | (Inl e, s') \<Rightarrow> (Inl e, s')
      | (Inr embeddings, s') \<Rightarrow>
          (let split_rec = split_rec(''embeddings'' \<mapsto> embeddings);
               new_message = message_dict;
               new_message = new_message\<lparr>message_record := split_rec\<rparr>
           in (Inr (from_dict new_message), s')))))"

text \<open>
  The loop over the records of the split: each message is yielded as soon as its
  embedding has arrived, and the first exception ends the loop.
\<close>

fun embed_records ::
  "'s embedding_service \<Rightarrow> config \<Rightarrow> record_message \<Rightarrow> dict list \<Rightarrow> 's \<Rightarrow>
   (record_message list \<times> error option) \<times> 's" where
  "embed_records create cfg message_dict [] s = (([], None), s)"
| "embed_records create cfg message_dict (split_rec # rest) s =
     (case embed_record create cfg message_dict split_rec s of
        (Inl e, s') \<Rightarrow> (([], Some e), s')
      | (Inr m, s') \<Rightarrow>
          (case embed_records create cfg message_dict rest s' of
             ((ms, r), s'') \<Rightarrow> ((m # ms, r), s'')))"

text \<open>
  \<^verbatim>\<open>map_record_message\<close>, run to its end: the messages it yielded, the exception
  that ended it (if any), the configuration and the state of the service afterwards. An
  exception of \<^verbatim>\<open>split_record\<close> arrives when the loop asks for the next record, after
  the records yielded before it have been handled.
\<close>

definition map_record_message ::
  "splitter \<Rightarrow> 's embedding_service \<Rightarrow> config \<Rightarrow> record_message \<Rightarrow> 's \<Rightarrow>
   (record_message list \<times> error option) \<times> config \<times> 's" where
  "map_record_message split_documents_of create cfg message_dict s =
     (case split_record split_documents_of cfg (message_record message_dict) of
        ((split_records, ending), cfg') \<Rightarrow>
          (case embed_records create cfg' message_dict split_records s of
             ((ms, Some e), s') \<Rightarrow> ((ms, Some e), cfg', s')
           | ((ms, None), s') \<Rightarrow>
               (case ending of
                  Inl e \<Rightarrow> ((ms, Some e), cfg', s')
                | Inr _ \<Rightarrow> ((ms, None), cfg', s'))))"

subsection \<open>A splitter and a service to run the mapper on\<close>

text \<open>
  Two stand-ins for the external parties, used where a statement is evaluated on concrete
  input: a splitter that cuts a text into pieces of two characters and hands the metadata
  to each piece, and a service that answers \<open>quota\<close> calls with a one-number vector
  (the length of the text it was sent) and every later call with a rate-limit error. The
  state of the service is the number of calls so far.
\<close>

fun pieces :: "string \<Rightarrow> string list" where
  "pieces [] = []"
| "pieces [a] = [[a]]"
| "pieces (a # b # t) = [a, b] # pieces t"

definition piece_splitter :: splitter where
  "piece_splitter splitter_cfg raw_document_text metadata_dict =
     (case raw_document_text of
        JStr t \<Rightarrow>
          Inr (map (\<lambda>p. \<lparr>page_content = p, metadata = metadata_dict\<rparr>) (pieces t))
      | _ \<Rightarrow> Inl (ExternalError ''ValidationError''))"

definition quota_service :: "nat \<Rightarrow> nat embedding_service" where
  "quota_service quota request calls =
     (if calls < quota
      then Inr (JObj [(''data'',
             JArr [JObj [(''embedding'',
               JArr (map (\<lambda>t. JInt (int (length t))) (request_input request)))]])])
      else Inl (RateLimitError ''quota exceeded''),
      Suc calls)"

text \<open>
  A service wrapped so that every request sent to it is also appended to a log: the
  interception of the outbound call.
\<close>

definition intercept ::
  "'s embedding_service \<Rightarrow> (embedding_request list \<times> 's) embedding_service" where
  "intercept create request =
     (\<lambda>(sent, s). case create request s of (r, s') \<Rightarrow> (r, (sent @ [request], s')))"

text \<open>
  The configuration with the defaults of \<^verbatim>\<open>config_jsonschema\<close> and nothing else
  set, and a record message of a stream of documents.
\<close>

definition default_config :: config where
  "default_config =
     \<lparr>document_text_property = Some ''page_content'',
      document_metadata_property = Some ''metadata'',
      openai_api_key = None, split_documents = None, splitter_config = None\<rparr>"

definition document_message :: "dict \<Rightarrow> record_message" where
  "document_message rec =
     \<lparr>message_stream = ''documents'', message_record = rec,
      message_version = None, message_time_extracted = None\<rparr>"

definition document_schema :: schema_message where
  "document_schema =
     \<lparr>schema_stream = ''documents'',
      schema_properties = [''page_content'' \<mapsto> Declared (JStr ''string'')],
      key_properties = [''id'']\<rparr>"


section \<open>Properties\<close>

subsection \<open>Auxiliary facts\<close>

declare str_replace.simps [simp del]

lemma str_replace_char:
  "str_replace [c] [d] s = map (\<lambda>x. if x = c then d else x) s"
proof (induction s)
  case Nil
  show ?case by (simp add: str_replace.simps)
next
  case (Cons a s)
  show ?case by (subst str_replace.simps) (simp add: Cons.IH)
qed



lemma split_empty_text:
  "split_record piece_splitter default_config [''page_content'' \<mapsto> JStr []] =
     (([], Inr None), default_config)"
  by (simp add: split_record_def default_config_def piece_splitter_def)

subsection \<open>Splitting switched off\<close>

text \<open>
  C1: with \<^verbatim>\<open>split_documents\<close> set to false, the record is to come out as one unit and
  give one output record. The code does not do that. Evaluated on the record
  \<^verbatim>\<open>{"page_content": "hello"}\<close>: \<^verbatim>\<open>split_record\<close> yields nothing, the record is only
  the value of the generator's \<^verbatim>\<open>return\<close>, and \<^verbatim>\<open>map_record_message\<close> emits no
  message and makes no embedding call.
\<close>

theorem split_disabled_emits_nothing:
  "split_record piece_splitter (default_config\<lparr>split_documents := Some False\<rparr>)
     [''page_content'' \<mapsto> JStr ''hello''] =
     (([], Inr (Some [''page_content'' \<mapsto> JStr ''hello''])),
      default_config\<lparr>split_documents := Some False\<rparr>)
   \<and> map_record_message piece_splitter (quota_service 5)
       (default_config\<lparr>split_documents := Some False\<rparr>)
       (document_message [''page_content'' \<mapsto> JStr ''hello'']) 0 =
     (([], None), default_config\<lparr>split_documents := Some False\<rparr>, 0)"
  by (simp add: map_record_message_def split_record_def default_config_def document_message_def)

subsection \<open>The text sent for embedding\<close>

text \<open>
  C4: \<^verbatim>\<open>get_embeddings\<close> sends exactly one request; its input is the one-element list
  holding the text with every newline character replaced by one space and every other
  character as it was, under the model and the key it was given. The request is read off
  an intercepting service, whatever the service behind it answers.
\<close>

theorem newline_replaced_in_request:
  "snd (get_embeddings (intercept create) (JStr text) api_key model (sent, s)) =
     (sent @ [\<lparr>request_input = [map (\<lambda>c. if c = CHR 0x0A then CHR '' '' else c) text],
               request_model = model, request_api_key = api_key\<rparr>],
      snd (create \<lparr>request_input = [map (\<lambda>c. if c = CHR 0x0A then CHR '' '' else c) text],
               request_model = model, request_api_key = api_key\<rparr> s))"
  by (cases "create \<lparr>request_input = [map (\<lambda>c. if c = CHR 0x0A then CHR '' '' else c) text],
               request_model = model, request_api_key = api_key\<rparr> s")
     (auto simp: get_embeddings_def intercept_def str_replace_char Let_def split: sum.splits)

subsection \<open>No segments\<close>

text \<open>
  C6: when the split of a record yields no segment and ends without an exception,
  \<^verbatim>\<open>map_record_message\<close> emits no message, raises nothing and makes no embedding call
  (the state of the service is the one it started in).
\<close>

theorem no_segments_no_output:
  assumes "fst (split_record split_documents_of cfg (message_record message_dict)) = ([], Inr r)"
  shows "map_record_message split_documents_of create cfg message_dict s =
    (([], None), snd (split_record split_documents_of cfg (message_record message_dict)), s)"
  using assms
  by (cases "split_record split_documents_of cfg (message_record message_dict)")
     (simp add: map_record_message_def)

theorem no_segments_no_output_witness:
  "fst (split_record piece_splitter default_config
          (message_record (document_message [''page_content'' \<mapsto> JStr []]))) = ([], Inr None)
   \<and> map_record_message piece_splitter (quota_service 0) default_config
        (document_message [''page_content'' \<mapsto> JStr []]) 0 =
      (([], None), default_config, 0)"
  using no_segments_no_output
    [of piece_splitter default_config "document_message [''page_content'' \<mapsto> JStr []]" None
        "quota_service 0" 0]
  by (simp add: split_empty_text document_message_def)

subsection \<open>Configuration validation\<close>




text \<open>
  C9: called without error raising, \<^verbatim>\<open>_validate_config\<close> is to return a pair of an
  empty list of warnings and an empty list of errors. The code raises nothing, but it
  drops the report of the inherited method and ends without a \<^verbatim>\<open>return\<close>: what it
  returns is \<^verbatim>\<open>None\<close>, here for the default configuration, an empty environment and an
  inherited validation that reports nothing.
\<close>

theorem validate_config_returns_none:
  "validate_config (\<lambda>c r w. Inr ([], [])) default_config Map.empty False False = Inr None"
  by (simp add: validate_config_def)

subsection \<open>A record without its text field\<close>

text \<open>
  C10: on a record that lacks the configured text property, \<^verbatim>\<open>split_record\<close> ends with
  a \<^verbatim>\<open>KeyError\<close> for that key and has yielded nothing, whatever \<^verbatim>\<open>split_documents\<close>
  says; the configuration is as it was.
\<close>

theorem split_record_missing_text:
  assumes "document_text_property cfg = Some text_property"
    and "rec text_property = None"
  shows "split_record split_documents_of cfg rec = (([], Inl (KeyError text_property)), cfg)"
  using assms by (simp add: split_record_def)

theorem split_record_missing_text_witness:
  "document_text_property (default_config\<lparr>split_documents := Some False\<rparr>) = Some ''page_content''
   \<and> [''id'' \<mapsto> JInt 7] ''page_content'' = None
   \<and> split_record piece_splitter (default_config\<lparr>split_documents := Some False\<rparr>)
        [''id'' \<mapsto> JInt 7] =
      (([], Inl (KeyError ''page_content'')), default_config\<lparr>split_documents := Some False\<rparr>)"
  using split_record_missing_text
    [of "default_config\<lparr>split_documents := Some False\<rparr>" "''page_content''"
        "[''id'' \<mapsto> JInt 7]" piece_splitter]
  by (simp add: default_config_def)

subsection \<open>Auxiliary facts about the schema, the split and the loop\<close>









lemma embed_records_append:
  "embed_records create cfg message_dict (xs @ ys) s =
     (case embed_records create cfg message_dict xs s of
        ((ms, Some e), s') \<Rightarrow> ((ms, Some e), s')
      | ((ms, None), s') \<Rightarrow>
          (case embed_records create cfg message_dict ys s' of
             ((ms', r), s'') \<Rightarrow> ((ms @ ms', r), s'')))"
  by (induction xs arbitrary: s) (auto split: prod.splits sum.splits option.splits)

lemma embed_records_complete:
  "embed_records create cfg message_dict xs s = ((ms, None), s') \<Longrightarrow> length ms = length xs"
  by (induction xs arbitrary: s ms) (auto split: prod.splits sum.splits option.splits)


lemma embed_record_reads:
  assumes "document_text_property c1 = document_text_property c2"
    and "openai_api_key c1 = openai_api_key c2"
  shows "embed_record create c1 message_dict r s = embed_record create c2 message_dict r s"
  unfolding embed_record_def assms by (rule refl)

lemma embed_records_reads:
  assumes "document_text_property c1 = document_text_property c2"
    and "openai_api_key c1 = openai_api_key c2"
  shows "embed_records create c1 message_dict rs s = embed_records create c2 message_dict rs s"
  by (induction rs arbitrary: s)
     (simp_all add: embed_record_reads [OF assms] split: prod.splits sum.splits)

lemma split_record_keeps_settings:
  "document_text_property (snd (split_record split_documents_of cfg rec)) =
     document_text_property cfg
   \<and> openai_api_key (snd (split_record split_documents_of cfg rec)) = openai_api_key cfg"
  by (auto simp: split_record_def Let_def split: option.splits sum.splits)

lemma embed_record_rate_limit:
  assumes "document_text_property cfg = Some tp" and "r tp = Some t"
    and "get_embeddings create t (openai_api_key cfg) ''text-embedding-ada-002'' s
         = (Inl (RateLimitError ex), s')"
  shows "embed_record create cfg message_dict r s =
           (Inl (AbortedSyncFailedException (abort_message ex)), s')"
  using assms by (simp add: embed_record_def)

lemmas run_defs =
  map_record_message_def split_record_def default_config_def piece_splitter_def
  document_message_def Let_def embed_record_def get_embeddings_def str_replace_char
  quota_service_def embedding_of_response_def from_dict_def abort_message_def
  with_chunk_defaults_def

subsection \<open>The schema message\<close>

text \<open>
  C2, as the code has it: when the configured metadata property is named neither
  \<^verbatim>\<open>embeddings\<close> nor \<^verbatim>\<open>segment_number\<close>, \<^verbatim>\<open>map_schema_message\<close> emits exactly one
  schema message; in it \<^verbatim>\<open>embeddings\<close> is an array of numbers, \<^verbatim>\<open>segment_number\<close> is
  an integer, the metadata property keeps its declaration if the incoming schema has one and
  is an object otherwise, every other property is as it came in, and the key properties are
  the incoming ones with \<^verbatim>\<open>segment_number\<close> appended once at the end.
\<close>

theorem map_schema_message_result:
  assumes "document_metadata_property cfg = Some m"
    and "m \<noteq> ''embeddings''" and "m \<noteq> ''segment_number''"
  shows "\<exists>result. map_schema_message cfg message_dict = ([result], Inr ())
     \<and> schema_properties result ''embeddings'' = Some (ArrayType NumberType)
     \<and> schema_properties result ''segment_number'' = Some IntegerType
     \<and> schema_properties result m =
         (if m \<in> dom (schema_properties message_dict)
          then schema_properties message_dict m else Some ObjectType)
     \<and> (\<forall>k. k \<noteq> ''embeddings'' \<and> k \<noteq> ''segment_number'' \<and> k \<noteq> m
           \<longrightarrow> schema_properties result k = schema_properties message_dict k)
     \<and> key_properties result = key_properties message_dict @ [''segment_number'']
     \<and> schema_stream result = schema_stream message_dict"
  using assms
  by (auto simp: map_schema_message_def base_map_schema_message_def map_schema_result_def
        Let_def dom_def)

theorem map_schema_message_result_witness:
  "document_metadata_property default_config = Some ''metadata''
   \<and> ''metadata'' \<noteq> ''embeddings'' \<and> ''metadata'' \<noteq> ''segment_number''
   \<and> map_schema_message default_config document_schema =
     ([\<lparr>schema_stream = ''documents'',
        schema_properties =
          [''page_content'' \<mapsto> Declared (JStr ''string''),
           ''embeddings'' \<mapsto> ArrayType NumberType,
           ''metadata'' \<mapsto> ObjectType,
           ''segment_number'' \<mapsto> IntegerType],
        key_properties = [''id'', ''segment_number'']\<rparr>], Inr ())"
  using map_schema_message_result [of default_config "''metadata''" document_schema]
  by (simp add: default_config_def document_schema_def map_schema_message_def
        base_map_schema_message_def map_schema_result_def Let_def dom_def)

text \<open>
  The claim as stated, for every configuration, fails when the metadata property is named
  \<^verbatim>\<open>segment_number\<close>: the schema does not declare it, and in the one message emitted it
  is an integer, not an object.
\<close>

theorem metadata_property_not_object_counterexample:
  "''segment_number'' \<notin> dom (schema_properties document_schema)
   \<and> length (fst (map_schema_message
        (default_config\<lparr>document_metadata_property := Some ''segment_number''\<rparr>)
        document_schema)) = 1
   \<and> schema_properties (hd (fst (map_schema_message
        (default_config\<lparr>document_metadata_property := Some ''segment_number''\<rparr>)
        document_schema))) ''segment_number'' = Some IntegerType
   \<and> schema_properties (hd (fst (map_schema_message
        (default_config\<lparr>document_metadata_property := Some ''segment_number''\<rparr>)
        document_schema))) ''segment_number'' \<noteq> Some ObjectType"
  by (simp add: default_config_def document_schema_def map_schema_message_def
        base_map_schema_message_def map_schema_result_def Let_def dom_def)

subsection \<open>A rate limit in the middle of a record\<close>

text \<open>
  C3: let the split of the record yield the records \<open>before\<close>, then \<open>r\<close>, then
  \<open>later\<close>; let the embedding calls for \<open>before\<close> all succeed and emit \<open>emitted\<close>, and
  let the call for the text of \<open>r\<close> raise a rate-limit error with message \<open>ex\<close>. Then
  \<^verbatim>\<open>map_record_message\<close> ends with an \<^verbatim>\<open>AbortedSyncFailedException\<close> whose message is
  the fixed prefix, a newline and \<open>ex\<close>; what it has emitted is exactly \<open>emitted\<close>, one
  message for each record of \<open>before\<close> and none for \<open>r\<close> or \<open>later\<close>.
\<close>

theorem rate_limit_aborts:
  assumes "split_record split_documents_of cfg (message_record message_dict)
           = ((before @ r # later, ending), cfg')"
    and "embed_records create cfg message_dict before s = ((emitted, None), s1)"
    and "document_text_property cfg = Some tp" and "r tp = Some t"
    and "get_embeddings create t (openai_api_key cfg) ''text-embedding-ada-002'' s1
         = (Inl (RateLimitError ex), s2)"
  shows "map_record_message split_documents_of create cfg message_dict s =
      ((emitted,
        Some (AbortedSyncFailedException
          (''Sync aborted due to OpenAI rate limit reached. Error message:'' @ [CHR 0x0A] @ ex))),
       cfg', s2)
    \<and> length emitted = length before"
proof -
  from split_record_keeps_settings [of split_documents_of cfg "message_record message_dict"]
  have same: "document_text_property cfg' = document_text_property cfg"
             "openai_api_key cfg' = openai_api_key cfg"
    by (simp_all add: assms(1))
  have loop: "embed_records create cfg' message_dict rs s0 =
              embed_records create cfg message_dict rs s0" for rs s0
    by (rule embed_records_reads [OF same])
  have failing: "embed_record create cfg message_dict r s1 =
           (Inl (AbortedSyncFailedException (abort_message ex)), s2)"
    by (rule embed_record_rate_limit [where r = r and create = create,
          OF assms(3) assms(4) assms(5)])
  have "embed_records create cfg message_dict (before @ r # later) s =
          ((emitted, Some (AbortedSyncFailedException (abort_message ex))), s2)"
    by (simp add: embed_records_append assms(2) failing)
  then have "map_record_message split_documents_of create cfg message_dict s =
      ((emitted, Some (AbortedSyncFailedException (abort_message ex))), cfg', s2)"
    by (simp add: map_record_message_def assms(1) loop)
  moreover have "length emitted = length before"
    by (rule embed_records_complete [OF assms(2)])
  ultimately show ?thesis by (simp add: abort_message_def)
qed

theorem rate_limit_aborts_witness:
  "map_record_message piece_splitter (quota_service 1) default_config
     (document_message [''page_content'' \<mapsto> JStr ''abcdef'']) 0 =
   (([document_message
        ([''page_content'' \<mapsto> JStr ''abcdef'']
           (''page_content'' \<mapsto> JStr ''ab'', ''metadata'' \<mapsto> JObj [],
            ''segment_number'' \<mapsto> JInt 0, ''embeddings'' \<mapsto> JArr [JInt 2]))],
     Some (AbortedSyncFailedException
       (''Sync aborted due to OpenAI rate limit reached. Error message:'' @ [CHR 0x0A] @
        ''quota exceeded''))),
    default_config, 2)"
proof -
  let ?rec = "[''page_content'' \<mapsto> JStr ''abcdef'']"
  let ?r0 = "?rec(''page_content'' \<mapsto> JStr ''ab'', ''metadata'' \<mapsto> JObj [],
               ''segment_number'' \<mapsto> JInt 0)"
  let ?r1 = "?rec(''page_content'' \<mapsto> JStr ''cd'', ''metadata'' \<mapsto> JObj [],
               ''segment_number'' \<mapsto> JInt 1)"
  let ?r2 = "?rec(''page_content'' \<mapsto> JStr ''ef'', ''metadata'' \<mapsto> JObj [],
               ''segment_number'' \<mapsto> JInt 2)"
  let ?m0 = "document_message (?r0(''embeddings'' \<mapsto> JArr [JInt 2]))"
  have split: "split_record piece_splitter default_config
                 (message_record (document_message ?rec)) =
               (([?r0] @ ?r1 # [?r2], Inr None), default_config)"
    by (simp add: run_defs)
  have first: "embed_records (quota_service 1) default_config (document_message ?rec) [?r0] 0 =
                 (([?m0], None), 1)"
    by (simp add: run_defs)
  have configured: "document_text_property default_config = Some ''page_content''"
    by (simp add: default_config_def)
  have field: "?r1 ''page_content'' = Some (JStr ''cd'')"
    by simp
  have call: "get_embeddings (quota_service 1) (JStr ''cd'') (openai_api_key default_config)
                ''text-embedding-ada-002'' 1 = (Inl (RateLimitError ''quota exceeded''), 2)"
    by (simp add: run_defs)
  from rate_limit_aborts
    [where split_documents_of = piece_splitter and cfg = default_config
       and message_dict = "document_message ?rec" and before = "[?r0]" and r = ?r1
       and later = "[?r2]" and ending = "Inr None" and cfg' = default_config
       and create = "quota_service 1" and s = 0 and emitted = "[?m0]" and ?s1.0 = 1
       and tp = "''page_content''" and t = "JStr ''cd''" and ex = "''quota exceeded''"
       and ?s2.0 = 2,
     OF split first configured field call]
  show ?thesis by simp
qed

subsection \<open>The output records\<close>




subsection \<open>The configuration\<close>



end
